theory Spec2Isabelle
  imports
    Complex_Main
    "HOL-Library.Sublist"
    "HOL-Library.Char_ord"
    "HOL-Library.List_Lexorder"
    "HOL-Library.Log_Nat"
begin

section \<open>Strings\<close>

text \<open>
  Python's \<open>str.lower()\<close> and JavaScript's \<open>String.prototype.toLowerCase()\<close> are
  modelled on ASCII: the letters \<open>A\<close> to \<open>Z\<close> are mapped to \<open>a\<close> to \<open>z\<close>, every
  other character is kept. Python's \<open>x in s\<close> and JavaScript's \<open>s.includes(x)\<close> on strings
  are both containment of \<open>x\<close> as a contiguous run of \<open>s\<close>.
\<close>

definition lower_char :: "char \<Rightarrow> char" where
  "lower_char c =
     (case map_of (zip ''ABCDEFGHIJKLMNOPQRSTUVWXYZ'' ''abcdefghijklmnopqrstuvwxyz'') c of
        None \<Rightarrow> c | Some l \<Rightarrow> l)"

definition toLowerCase :: "string \<Rightarrow> string" where
  "toLowerCase s = map lower_char s"

definition includes_str :: "string \<Rightarrow> string \<Rightarrow> bool" where
  "includes_str s x = sublist x s"

section \<open>Python floats\<close>

text \<open>
  A Python float is an IEEE 754 double. A double is modelled by its exact value, a real
  number, and an arithmetic operation by the exact result rounded to the nearest double,
  ties to even. A number whose magnitude lies between \<open>2 powi e\<close> and \<open>2 powi (e + 1)\<close>
  is rounded to a multiple of \<open>2 powi (e - 52)\<close>; below \<open>2 powi (- 1022)\<close> the spacing
  stays \<open>2 powi (- 1074)\<close>. Infinities and NaN are not modelled: \<open>rnd\<close> is the rounding
  of numbers of magnitude below \<open>2 powi 1024\<close>.
\<close>

text \<open>The exponent \<open>e\<close> with \<open>2 powi e \<le> x < 2 powi (e + 1)\<close>, for a positive \<open>x\<close>.\<close>

definition binade :: "real \<Rightarrow> int" where
  "binade x = (if 1 \<le> x then bitlen \<lfloor>x\<rfloor> - 1 else - bitlen (\<lceil>1 / x\<rceil> - 1))"

definition round_half_even :: "real \<Rightarrow> int" where
  "round_half_even r =
     (let f = \<lfloor>r\<rfloor> in
      if r - of_int f < 1 / 2 then f
      else if 1 / 2 < r - of_int f then f + 1
      else if even f then f else f + 1)"

definition rnd :: "real \<Rightarrow> real" where
  "rnd x =
     (if x = 0 then 0
      else let e = max (binade \<bar>x\<bar>) (- 1022); ulp = 2 powi (e - 52)
           in ulp * of_int (round_half_even (x / ulp)))"

text \<open>
  \<open>a + b\<close>, \<open>a * b\<close> and \<open>a / b\<close> on floats. A decimal literal such as \<open>0.20\<close> denotes
  the double \<open>rnd 0.20\<close>.
\<close>

definition fadd :: "real \<Rightarrow> real \<Rightarrow> real" where
  "fadd a b = rnd (a + b)"

definition fmul :: "real \<Rightarrow> real \<Rightarrow> real" where
  "fmul a b = rnd (a * b)"


section \<open>AdoptionReadinessScorer (Python)\<close>

text \<open>
  The dictionaries \<open>dimensions\<close> and \<open>weights\<close> of \<open>assess_readiness\<close> have the same six
  fixed keys, inserted in this order. A dictionary with a fixed key set is a record; in
  \<open>dimensions\<close> each field holds the \<open>'score'\<close> entry of that dimension's result, the only
  entry that \<open>assess_readiness\<close> and \<open>forecast_adoption_trajectory\<close> read. The record
  \<open>weights\<close> holds the decimal literals as they are written; the float that a literal
  denotes is its rounding.
\<close>

record 'a by_dimension =
  narrative_alignment :: 'a
  cultural_receptivity :: 'a
  trust_foundation :: 'a
  learning_orientation :: 'a
  leadership_coherence :: 'a
  coordination :: 'a

definition weights :: "real by_dimension" where
  "weights = \<lparr> narrative_alignment = 0.20, cultural_receptivity = 0.20,
               trust_foundation = 0.15, learning_orientation = 0.15,
               leadership_coherence = 0.15, coordination = 0.15 \<rparr>"

text \<open>The values of a dictionary in insertion order, as \<open>for dim in dimensions\<close> visits them.\<close>

definition in_order :: "'a by_dimension \<Rightarrow> 'a list" where
  "in_order d = [narrative_alignment d, cultural_receptivity d, trust_foundation d,
                 learning_orientation d, leadership_coherence d, coordination d]"

text \<open>
  \<open>sum(dimensions[dim]['score'] * weights[dim] for dim in dimensions)\<close>: Python's \<open>sum\<close>
  starts from 0 and adds the products from left to right, in float arithmetic. This is
  \<open>sum\<close> up to Python 3.11 (the setup script asks for Python 3.10 or later); from
  Python 3.12 on, \<open>sum\<close> compensates the rounding errors of the additions.
\<close>

definition overall_score :: "real by_dimension \<Rightarrow> real" where
  "overall_score dimensions =
     foldl fadd 0 (map (\<lambda>(score, weight). fmul score (rnd weight))
                       (zip (in_order dimensions) (in_order weights)))"

text \<open>
  The weights that \<open>AI_AGENT_IMPLEMENTATION_STATUS.md\<close> lists for the six dimensions; they
  differ from the weights of \<open>assess_readiness\<close> in trust (20%) and coordination (10%).
\<close>

definition documented_weights :: "real by_dimension" where
  "documented_weights = \<lparr> narrative_alignment = 0.20, cultural_receptivity = 0.20,
               trust_foundation = 0.20, learning_orientation = 0.15,
               leadership_coherence = 0.15, coordination = 0.10 \<rparr>"

text \<open>
  \<open>forecast_adoption_trajectory\<close>: the trend is the \<open>'trend'\<close> entry of what
  \<open>_analyze_narrative_time_series\<close> returns; that helper is not part of the sources, so its
  result is a parameter. Only the \<open>'predicted_trajectory'\<close> entry is modelled. The scores
  are compared with the decimal thresholds; for a score that is a double this is the
  comparison with the doubles \<open>rnd 0.6\<close> and \<open>rnd 0.4\<close>, since no double lies between a
  threshold and its rounding.
\<close>

definition forecast_adoption_trajectory :: "string \<Rightarrow> real by_dimension \<Rightarrow> string" where
  "forecast_adoption_trajectory trend dimensions =
     (if trend = ''positive'' \<and> cultural_receptivity dimensions > 0.6 then ''accelerating''
      else if trend = ''negative'' \<or> trust_foundation dimensions < 0.4 then ''stalling''
      else ''uncertain'')"

text \<open>
  The result of \<open>assess_readiness\<close>. The entries \<open>readiness_level\<close>, \<open>strengths\<close>, \<open>risks\<close>
  and \<open>recommendations\<close> are computed by helpers that are not part of the sources and are
  left out. The six dimension scorers are called first; their scores and the trend are
  the parameters of the model.
\<close>

record readiness =
  overall_readiness :: real
  dimension_scores :: "real by_dimension"
  forecast :: string

definition assess_readiness :: "string \<Rightarrow> real by_dimension \<Rightarrow> readiness" where
  "assess_readiness trend dimensions =
     \<lparr> overall_readiness = overall_score dimensions,
       dimension_scores = dimensions,
       forecast = forecast_adoption_trajectory trend dimensions \<rparr>"

text \<open>
  \<open>score_trust_levels\<close>. A story is a dictionary; \<open>s.get('summary', '')\<close> reads the summary
  with the empty string as default.
\<close>

record ai_story =
  ai_summary :: "string option"

definition get_summary :: "ai_story \<Rightarrow> string" where
  "get_summary s = (case ai_summary s of None \<Rightarrow> '''' | Some x \<Rightarrow> x)"



definition count_matching :: "string list \<Rightarrow> ai_story list \<Rightarrow> nat" where
  "count_matching indicators all_stories =
     length (filter (\<lambda>s. list_ex (\<lambda>ind. includes_str (toLowerCase (get_summary s)) ind) indicators)
                    all_stories)"

record trust_levels =
  score :: real
  positive_signals :: nat
  negative_signals :: nat




section \<open>NarrativeGapAnalyzer\<close>

text \<open>
  Modelled from the spec: \<open>backend/src/services/analysis/narrative_gap_analyzer.py\<close> is
  not part of the sources. A story carries \<open>concepts_mentioned\<close>; the concept terms of a
  story set are the distinct terms mentioned by its stories.
\<close>

record gap_story =
  concepts_mentioned :: "string list"

text \<open>
  Modelled from the spec: the concept-term set of a list of stories, without duplicates
  (\<open>narrative_gap_analyzer.py\<close> is not part of the sources).
\<close>

definition concept_terms :: "gap_story list \<Rightarrow> string list" where
  "concept_terms stories = remdups (concat (map concepts_mentioned stories))"

text \<open>
  Modelled from the spec: the vocabulary gap of \<open>NarrativeGapAnalyzer\<close>
  (\<open>narrative_gap_analyzer.py\<close> is not part of the sources): one minus the share of common
  terms among all terms, and 0 when there is no term to compare.
\<close>

definition vocabulary_gap :: "gap_story list \<Rightarrow> gap_story list \<Rightarrow> real" where
  "vocabulary_gap official actual =
     (let official_terms = concept_terms official;
          actual_terms = concept_terms actual;
          intersection = filter (\<lambda>t. t \<in> set actual_terms) official_terms;
          union = remdups (official_terms @ actual_terms)
      in if length union = 0 then 0
         else 1 - real (length intersection) / real (length union))"



section \<open>CulturalSignalDetector and FrameCompetitionAnalyzer\<close>







section \<open>AnalysisOrchestrator\<close>

text \<open>
  Modelled from the spec: \<open>backend/src/services/ai_narrative_intelligence_agent.py\<close> is
  not part of the sources. The five analyzers, and what one invocation yields: a report,
  or the failure of an upstream query.
\<close>

datatype analyzer =
  NarrativeGapAnalyzer | FrameCompetitionAnalyzer | CulturalSignalDetector
  | ResistanceMapper | AdoptionReadinessScorer

datatype failure = AnalyzerFailure string

record analyzer_report =
  report_score :: real
  evidence :: "string list"

datatype report_section = Failed string | Completed analyzer_report

definition all_analyzers :: "analyzer list" where
  "all_analyzers = [NarrativeGapAnalyzer, FrameCompetitionAnalyzer, CulturalSignalDetector,
                    ResistanceMapper, AdoptionReadinessScorer]"

text \<open>
  Modelled from the spec: the section of an analyzer in the overall report
  (\<open>ai_narrative_intelligence_agent.py\<close> is not part of the sources). A failure is caught
  and becomes a section marked failed, with the error note.
\<close>

definition section_of :: "failure + analyzer_report \<Rightarrow> report_section" where
  "section_of outcome =
     (case outcome of Inl (AnalyzerFailure note) \<Rightarrow> Failed note | Inr r \<Rightarrow> Completed r)"

definition succeeded :: "(analyzer \<Rightarrow> failure + analyzer_report) \<Rightarrow> analyzer list" where
  "succeeded outcomes = filter (\<lambda>a. isl (outcomes a) = False) all_analyzers"

text \<open>
  Modelled from the spec: proportional re-normalization of the weights of the analyzers
  that did not fail (\<open>ai_narrative_intelligence_agent.py\<close> is not part of the sources). The
  spec gives no values for the orchestrator's weights; they are a parameter.
\<close>

definition renormalized ::
  "(analyzer \<Rightarrow> real) \<Rightarrow> (analyzer \<Rightarrow> failure + analyzer_report) \<Rightarrow> analyzer \<Rightarrow> real" where
  "renormalized weight outcomes a =
     (if a \<in> set (succeeded outcomes)
      then weight a / sum_list (map weight (succeeded outcomes)) else 0)"

definition clamp01 :: "real \<Rightarrow> real" where
  "clamp01 x = min (max x 0) 1"

record comprehensive_report =
  sections :: "analyzer \<Rightarrow> report_section"
  effective_weights :: "analyzer \<Rightarrow> real"
  composite_score :: real

text \<open>
  Modelled from the spec: \<open>run_comprehensive_analysis\<close>
  (\<open>ai_narrative_intelligence_agent.py\<close> is not part of the sources). The result is a sum
  so that aborting would be the value \<open>Inl\<close>.
\<close>

definition run_comprehensive_analysis ::
  "(analyzer \<Rightarrow> real) \<Rightarrow> (analyzer \<Rightarrow> failure + analyzer_report)
     \<Rightarrow> failure + comprehensive_report" where
  "run_comprehensive_analysis weight outcomes =
     Inr \<lparr> sections = (\<lambda>a. section_of (outcomes a)),
           effective_weights = renormalized weight outcomes,
           composite_score =
             clamp01 (sum_list (map (\<lambda>a. renormalized weight outcomes a *
                                          (case outcomes a of Inl e \<Rightarrow> 0 | Inr r \<Rightarrow> report_score r))
                                    (succeeded outcomes))) \<rparr>"

section \<open>Frontend API client (TypeScript)\<close>

text \<open>
  The values a response body can hold after JSON parsing, with JavaScript's \<open>undefined\<close>
  for the result of reading what is not there.
\<close>

datatype jsval =
  Undefined | Null | Bool bool | Num real | Str string
  | Arr "jsval list" | Obj "(string \<times> jsval) list"

datatype js_error = AxiosError string | TypeError string

fun truthy :: "jsval \<Rightarrow> bool" where
  "truthy Undefined = False"
| "truthy Null = False"
| "truthy (Bool b) = b"
| "truthy (Num n) = (n \<noteq> 0)"
| "truthy (Str s) = (s \<noteq> [])"
| "truthy (Arr xs) = True"
| "truthy (Obj kvs) = True"

fun typeof :: "jsval \<Rightarrow> string" where
  "typeof Undefined = ''undefined''"
| "typeof Null = ''object''"
| "typeof (Bool b) = ''boolean''"
| "typeof (Num n) = ''number''"
| "typeof (Str s) = ''string''"
| "typeof (Arr xs) = ''object''"
| "typeof (Obj kvs) = ''object''"

fun isArray :: "jsval \<Rightarrow> bool" where
  "isArray (Arr xs) = True"
| "isArray v = False"

fun nullish :: "jsval \<Rightarrow> bool" where
  "nullish Undefined = True"
| "nullish Null = True"
| "nullish v = False"

text \<open>Sequencing of steps that may throw, and \<open>try { ... } catch (error) { ... }\<close>.\<close>

definition and_then :: "js_error + 'a \<Rightarrow> ('a \<Rightarrow> js_error + 'b) \<Rightarrow> js_error + 'b" where
  "and_then m f = (case m of Inl e \<Rightarrow> Inl e | Inr v \<Rightarrow> f v)"

definition try_catch :: "js_error + 'a \<Rightarrow> (js_error \<Rightarrow> js_error + 'a) \<Rightarrow> js_error + 'a" where
  "try_catch body handler = (case body of Inl error \<Rightarrow> handler error | Inr v \<Rightarrow> Inr v)"

text \<open>
  \<open>v.k\<close> for a property name \<open>k\<close>: reading a property of \<open>undefined\<close> or \<open>null\<close> throws a
  TypeError; an object yields the value stored under the key, an array or a string its
  \<open>length\<close>, and everything else \<open>undefined\<close>.
\<close>

fun member :: "jsval \<Rightarrow> string \<Rightarrow> js_error + jsval" where
  "member Undefined k = Inl (TypeError k)"
| "member Null k = Inl (TypeError k)"
| "member (Obj kvs) k = Inr (case map_of kvs k of None \<Rightarrow> Undefined | Some v \<Rightarrow> v)"
| "member (Arr xs) k = Inr (if k = ''length'' then Num (real (length xs)) else Undefined)"
| "member (Str s) k = Inr (if k = ''length'' then Num (real (length s)) else Undefined)"
| "member v k = Inr Undefined"

text \<open>\<open>v[0]\<close>: the first element of an array, the first character of a string.\<close>

fun index0 :: "jsval \<Rightarrow> js_error + jsval" where
  "index0 Undefined = Inl (TypeError ''0'')"
| "index0 Null = Inl (TypeError ''0'')"
| "index0 (Arr xs) = Inr (case xs of [] \<Rightarrow> Undefined | x # rest \<Rightarrow> x)"
| "index0 (Str s) = Inr (case s of [] \<Rightarrow> Undefined | c # rest \<Rightarrow> Str [c])"
| "index0 (Obj kvs) = Inr (case map_of kvs ''0'' of None \<Rightarrow> Undefined | Some v \<Rightarrow> v)"
| "index0 v = Inr Undefined"

text \<open>Optional chaining: \<open>v?.k\<close> and \<open>v?.[0]\<close> yield \<open>undefined\<close> when \<open>v\<close> is nullish.\<close>

definition opt_member :: "jsval \<Rightarrow> string \<Rightarrow> js_error + jsval" where
  "opt_member v k = (if nullish v then Inr Undefined else member v k)"

definition opt_index0 :: "jsval \<Rightarrow> js_error + jsval" where
  "opt_index0 v = (if nullish v then Inr Undefined else index0 v)"

text \<open>
  \<open>v?.substring(0, 50)\<close>: \<open>undefined\<close> when \<open>v\<close> is nullish, the first 50 characters of a
  string; any other value has no callable \<open>substring\<close>, and the call throws a TypeError.
\<close>

fun opt_substring_0_50 :: "jsval \<Rightarrow> js_error + jsval" where
  "opt_substring_0_50 Undefined = Inr Undefined"
| "opt_substring_0_50 Null = Inr Undefined"
| "opt_substring_0_50 (Str s) = Inr (Str (take 50 s))"
| "opt_substring_0_50 v = Inl (TypeError ''substring'')"

text \<open>\<open>v + '...'\<close> for \<open>v\<close> a string or \<open>undefined\<close>, the two results of the call above.\<close>

fun plus_dots :: "jsval \<Rightarrow> jsval" where
  "plus_dots (Str s) = Str (s @ ''...'')"
| "plus_dots v = Str ''undefined...''"

text \<open>\<open>a || b\<close> on values.\<close>

definition or_val :: "jsval \<Rightarrow> jsval \<Rightarrow> jsval" where
  "or_val a b = (if truthy a then a else b)"

text \<open>
  The object that \<open>searchStories\<close> logs after the response has arrived. Building it
  evaluates \<open>data[0].summary?.substring(0, 50)\<close>, which may throw inside the \<open>try\<close> block.
\<close>

definition stories_log :: "jsval \<Rightarrow> js_error + jsval" where
  "stories_log data =
     and_then (opt_member data ''length'') (\<lambda>len.
     and_then (opt_index0 data) (\<lambda>first.
     and_then
       (if truthy first then
          and_then (and_then (index0 data) (\<lambda>d0. member d0 ''id'')) (\<lambda>id0.
          and_then (and_then (index0 data) (\<lambda>d0. member d0 ''type'')) (\<lambda>type0.
          and_then (and_then (and_then (index0 data) (\<lambda>d0. member d0 ''summary''))
                             opt_substring_0_50) (\<lambda>sub.
          Inr (Obj [(''id'', id0), (''type'', type0), (''summary'', plus_dots sub)]))))
        else Inr Null) (\<lambda>firstStory.
     Inr (Obj [(''count'', or_val len (Num 0)), (''isArray'', Bool (isArray data)),
               (''firstStory'', firstStory)]))))"

text \<open>
  The argument of each API function is what \<open>await api.get(...)\<close> does: it throws
  (\<open>Inl\<close>), or yields a response whose \<open>data\<close> is destructured (\<open>Inr\<close>). The request
  parameters only reach the server and are not modelled.
\<close>

definition searchStories :: "js_error + jsval \<Rightarrow> js_error + jsval" where
  "searchStories response =
     try_catch
       (and_then response (\<lambda>data.
        and_then (stories_log data) (\<lambda>logged.
        Inr (if isArray data then data else Arr []))))
       (\<lambda>error. Inr (Arr []))"

definition getStory :: "js_error + jsval \<Rightarrow> js_error + jsval" where
  "getStory response =
     try_catch (and_then response (\<lambda>data. Inr data)) (\<lambda>error. Inl error)"

text \<open>The sample of the first node or link that \<open>getGraphData\<close> logs.\<close>

definition sample_of :: "jsval \<Rightarrow> string \<Rightarrow> string \<Rightarrow> string \<Rightarrow> string \<Rightarrow> js_error + jsval" where
  "sample_of data field k1 k2 k3 =
     and_then (and_then (opt_member data field) opt_index0) (\<lambda>first.
     if truthy first then
       and_then (and_then (member data field) index0) (\<lambda>item.
       and_then (member item k1) (\<lambda>v1.
       and_then (member item k2) (\<lambda>v2.
       and_then (member item k3) (\<lambda>v3.
       Inr (Obj [(k1, v1), (k2, v2), (k3, v3)])))))
     else Inr Null)"

definition graph_log :: "jsval \<Rightarrow> js_error + jsval" where
  "graph_log data =
     and_then (and_then (opt_member data ''nodes'') (\<lambda>n. opt_member n ''length'')) (\<lambda>nodesCount.
     and_then (and_then (opt_member data ''links'') (\<lambda>l. opt_member l ''length'')) (\<lambda>linksCount.
     and_then (opt_member data ''nodes'') (\<lambda>nodes.
     and_then (opt_member data ''links'') (\<lambda>links.
     and_then (sample_of data ''nodes'' ''id'' ''type'' ''label'') (\<lambda>sampleNode.
     and_then (sample_of data ''links'' ''source'' ''target'' ''type'') (\<lambda>sampleLink.
     Inr (Obj [(''nodesCount'', or_val nodesCount (Num 0)),
               (''linksCount'', or_val linksCount (Num 0)),
               (''hasNodes'', Bool (truthy nodes)), (''hasLinks'', Bool (truthy links)),
               (''isNodesArray'', Bool (isArray nodes)), (''isLinksArray'', Bool (isArray links)),
               (''sampleNode'', sampleNode), (''sampleLink'', sampleLink)])))))))"

definition empty_graph :: jsval where
  "empty_graph = Obj [(''nodes'', Arr []), (''links'', Arr [])]"

text \<open>The part of \<open>getGraphData\<close> after the log, from \<open>// Validate data structure\<close> on.\<close>

definition validated_graph :: "jsval \<Rightarrow> js_error + jsval" where
  "validated_graph data =
     (if \<not> truthy data \<or> typeof data \<noteq> ''object'' then Inr empty_graph
      else
        and_then (member data ''nodes'') (\<lambda>nodes.
        and_then (member data ''links'') (\<lambda>links.
        let result = Obj [(''nodes'', if isArray nodes then nodes else Arr []),
                          (''links'', if isArray links then links else Arr [])]
        in and_then (and_then (member result ''nodes'') (\<lambda>n. member n ''length'')) (\<lambda>nodesCount.
           and_then (and_then (member result ''links'') (\<lambda>l. member l ''length'')) (\<lambda>linksCount.
           Inr result)))))"

definition getGraphData :: "js_error + jsval \<Rightarrow> js_error + jsval" where
  "getGraphData response =
     try_catch
       (and_then response (\<lambda>data.
        and_then (graph_log data) (\<lambda>logged.
        validated_graph data)))
       (\<lambda>error. Inr empty_graph)"

section \<open>Stories pages (TypeScript)\<close>

text \<open>
  A story object as the pages read it at run time. \<open>None\<close> is a property that is absent
  (\<open>undefined\<close>). The fields \<open>summary\<close> to \<open>group\<close> are declared by the \<open>Story\<close>
  interface of \<open>types/index.ts\<close>; \<open>groups\<close> is not declared there, and is read by
  \<open>StoriesListPage\<close>, \<open>StoryCard\<close> and \<open>StoryDetailPage\<close>.
\<close>

record story =
  summary :: "string option"
  full_text :: "string option"
  type :: string
  primary_themes :: "string list option"
  outcome :: "string option"
  group :: "string option"
  groups :: "string list option"

text \<open>
  An object that has the shape of the declared \<open>Story\<close> interface: the required
  properties \<open>summary\<close>, \<open>primary_themes\<close> and \<open>outcome\<close> are present, the optional
  \<open>full_text\<close> and \<open>group\<close> may be, and there is no property beyond the declared ones.
\<close>

definition declared_Story :: "story \<Rightarrow> bool" where
  "declared_Story s =
     (summary s \<noteq> None \<and> primary_themes s \<noteq> None \<and> outcome s \<noteq> None \<and> groups s = None)"

record filters =
  search :: string
  themes :: "string list"
  groups :: "string list"
  types :: "string list"

text \<open>
  \<open>field?.toLowerCase().includes(searchLower)\<close> is \<open>undefined\<close> for an absent field;
  \<open>a || b\<close> and \<open>!a\<close> on such optional booleans.
\<close>

definition field_includes :: "string option \<Rightarrow> string \<Rightarrow> bool option" where
  "field_includes field searchLower =
     map_option (\<lambda>v. includes_str (toLowerCase v) searchLower) field"

definition or_else :: "bool option \<Rightarrow> bool option \<Rightarrow> bool option" where
  "or_else a b = (if a = Some True then a else b)"

definition js_not :: "bool option \<Rightarrow> bool" where
  "js_not a = (a \<noteq> Some True)"

text \<open>\<open>list?.some(x => selected.includes(x))\<close>.\<close>

definition some_selected :: "string list option \<Rightarrow> string list \<Rightarrow> bool option" where
  "some_selected list selected = map_option (list_ex (\<lambda>x. x \<in> set selected)) list"

text \<open>The callback of \<open>stories.filter\<close> in \<open>filteredStories\<close>, with its early returns.\<close>

definition keep_story :: "filters \<Rightarrow> story \<Rightarrow> bool" where
  "keep_story f s =
     (if search f \<noteq> [] \<and>
         (let searchLower = toLowerCase (search f);
              matchesSearch =
                or_else (or_else (field_includes (summary s) searchLower)
                                 (field_includes (outcome s) searchLower))
                        (field_includes (full_text s) searchLower)
          in js_not matchesSearch)
      then False
      else if length (types f) > 0 \<and> \<not> (type s \<in> set (types f)) then False
      else if length (themes f) > 0 \<and> js_not (some_selected (primary_themes s) (themes f))
      then False
      else if length (filters.groups f) > 0 \<and>
              js_not (some_selected (story.groups s) (filters.groups f))
      then False
      else True)"

text \<open>\<open>stories\<close> is \<open>undefined\<close> (\<open>None\<close>) until the query has data.\<close>

definition filteredStories :: "story list option \<Rightarrow> filters \<Rightarrow> story list" where
  "filteredStories stories f =
     (case stories of None \<Rightarrow> [] | Some xs \<Rightarrow> filter (keep_story f) xs)"

text \<open>
  A JavaScript \<open>Set\<close> of strings keeps its elements in insertion order; \<open>add\<close> of an
  element that is present changes nothing. \<open>Array.from(set).sort()\<close> sorts the strings
  by their code units.
\<close>

definition set_add :: "string list \<Rightarrow> string \<Rightarrow> string list" where
  "set_add elems x = (if x \<in> set elems then elems else elems @ [x])"

definition add_each :: "string list \<Rightarrow> string list option \<Rightarrow> string list" where
  "add_each elems list = (case list of None \<Rightarrow> elems | Some xs \<Rightarrow> foldl set_add elems xs)"

definition availableThemes :: "story list option \<Rightarrow> string list" where
  "availableThemes stories =
     (case stories of None \<Rightarrow> []
      | Some xs \<Rightarrow> sort (foldl (\<lambda>themes s. add_each themes (primary_themes s)) [] xs))"

definition availableGroups :: "story list option \<Rightarrow> string list" where
  "availableGroups stories =
     (case stories of None \<Rightarrow> []
      | Some xs \<Rightarrow> sort (foldl (\<lambda>groups s. add_each groups (story.groups s)) [] xs))"

text \<open>
  \<open>StoryCard\<close> and \<open>StoryDetailPage\<close> render the Groups section under the guard
  \<open>story.groups && story.groups.length > 0\<close>; the card shows the first two groups as badges.
\<close>

definition groups_section_renders :: "story \<Rightarrow> bool" where
  "groups_section_renders s =
     (case story.groups s of None \<Rightarrow> False | Some gs \<Rightarrow> length gs > 0)"

definition group_badges :: "story \<Rightarrow> string list" where
  "group_badges s =
     (case story.groups s of None \<Rightarrow> []
      | Some gs \<Rightarrow> if length gs > 0 then take 2 gs else [])"

text \<open>
  What the filters ask for, in words: a filter is active when its search string or its
  selection is not empty, and a story satisfies an active filter as follows.
\<close>

definition field_matches :: "string \<Rightarrow> string option \<Rightarrow> bool" where
  "field_matches q field =
     (case field of None \<Rightarrow> False | Some v \<Rightarrow> sublist (toLowerCase q) (toLowerCase v))"

definition text_matches :: "string \<Rightarrow> story \<Rightarrow> bool" where
  "text_matches q s =
     (field_matches q (summary s) \<or> field_matches q (outcome s) \<or> field_matches q (full_text s))"

definition one_among :: "string list option \<Rightarrow> string list \<Rightarrow> bool" where
  "one_among list selected =
     (case list of None \<Rightarrow> False | Some xs \<Rightarrow> \<exists>x \<in> set xs. x \<in> set selected)"

definition satisfies_filters :: "filters \<Rightarrow> story \<Rightarrow> bool" where
  "satisfies_filters f s =
     ((search f \<noteq> [] \<longrightarrow> text_matches (search f) s) \<and>
      (types f \<noteq> [] \<longrightarrow> type s \<in> set (types f)) \<and>
      (themes f \<noteq> [] \<longrightarrow> one_among (primary_themes s) (themes f)) \<and>
      (filters.groups f \<noteq> [] \<longrightarrow> one_among (story.groups s) (filters.groups f)))"

section \<open>Properties of float rounding\<close>

lemma binade_bounds:
  assumes "0 < x"
  shows "2 powi binade x \<le> x \<and> x < 2 powi (binade x + 1)"
proof (cases "1 \<le> x")
  case True
  define n where "n = \<lfloor>x\<rfloor>"
  have n: "0 < n" using True by (simp add: n_def)
  have b: "2 ^ nat (bitlen n - 1) \<le> n \<and> n < 2 ^ nat (bitlen n)"
    using bitlen_bounds [OF n] .
  have b1: "1 \<le> bitlen n" using n by (simp add: bitlen_alt_def)
  have e: "binade x = bitlen n - 1" using True by (simp add: binade_def n_def)
  have "2 powi (bitlen n - 1) = (2::real) ^ nat (bitlen n - 1)"
    using b1 by (simp add: power_int_nonneg_exp)
  also have "\<dots> = of_int (2 ^ nat (bitlen n - 1))" by simp
  also have "\<dots> \<le> of_int n" using b by (simp only: of_int_le_iff)
  also have "\<dots> \<le> x" by (simp add: n_def)
  finally have lo: "2 powi binade x \<le> x" by (simp add: e)
  have "x < of_int (n + 1)" by (simp add: n_def)
  also have "\<dots> \<le> of_int (2 ^ nat (bitlen n))" using b by (simp only: of_int_le_iff) simp
  also have "\<dots> = (2::real) ^ nat (bitlen n)" by simp
  also have "\<dots> = 2 powi (bitlen n)" using b1 by (simp add: power_int_nonneg_exp)
  finally have hi: "x < 2 powi (binade x + 1)" by (simp add: e)
  show ?thesis using lo hi by simp
next
  case False
  define m where "m = \<lceil>1 / x\<rceil> - 1"
  have x1: "1 < 1 / x" using False assms by simp
  have m: "0 < m" using x1 by (simp add: m_def less_ceiling_iff)
  have b: "2 ^ nat (bitlen m - 1) \<le> m \<and> m < 2 ^ nat (bitlen m)"
    using bitlen_bounds [OF m] .
  have b1: "1 \<le> bitlen m" using m by (simp add: bitlen_alt_def)
  have e: "binade x = - bitlen m" using False by (simp add: binade_def m_def)
  have "1 / x \<le> of_int (m + 1)" by (simp add: m_def)
  also have "\<dots> \<le> of_int (2 ^ nat (bitlen m))" using b by (simp only: of_int_le_iff) simp
  also have "\<dots> = (2::real) ^ nat (bitlen m)" by simp
  also have "\<dots> = 2 powi (bitlen m)" using b1 by (simp add: power_int_nonneg_exp)
  finally have "1 / x \<le> 2 powi (bitlen m)" .
  then have "1 / 2 powi (bitlen m) \<le> x"
    using assms by (simp add: field_simps)
  then have lo: "2 powi binade x \<le> x" by (simp add: e power_int_minus_divide)
  have "2 powi (bitlen m - 1) = (2::real) ^ nat (bitlen m - 1)"
    using b1 by (simp add: power_int_nonneg_exp)
  also have "\<dots> = of_int (2 ^ nat (bitlen m - 1))" by simp
  also have "\<dots> \<le> of_int m" using b by (simp only: of_int_le_iff)
  also have "\<dots> < 1 / x" by (simp add: m_def) linarith
  finally have "2 powi (bitlen m - 1) < 1 / x" .
  then have "x < 1 / 2 powi (bitlen m - 1)"
    using assms by (simp add: field_simps)
  also have "\<dots> = 2 powi (- (bitlen m - 1))" by (rule power_int_minus_divide [symmetric])
  finally have hi: "x < 2 powi (binade x + 1)" by (simp add: e)
  show ?thesis using lo hi by simp
qed






lemma rnd_zero [simp]: "rnd 0 = 0"
  by (simp add: rnd_def)



lemma pow2_increasing: "m \<le> n \<Longrightarrow> (2::real) powi m \<le> 2 powi n"
  by (rule power_int_increasing) simp_all







lemma rnd_one [simp]: "rnd 1 = 1"
  by code_simp


lemma binade_unique:
  assumes "0 < x" and "2 powi k \<le> x" and "x < 2 powi (k + 1)"
  shows "binade x = k"
proof (rule antisym)
  show "binade x \<le> k"
  proof (rule ccontr)
    assume "\<not> binade x \<le> k"
    then have "k + 1 \<le> binade x" by simp
    then have "(2::real) powi (k + 1) \<le> 2 powi binade x" by (rule pow2_increasing)
    then show False using binade_bounds [OF assms(1)] assms(3) by linarith
  qed
  show "k \<le> binade x"
  proof (rule ccontr)
    assume "\<not> k \<le> binade x"
    then have "binade x + 1 \<le> k" by simp
    then have "(2::real) powi (binade x + 1) \<le> 2 powi k" by (rule pow2_increasing)
    then show False using binade_bounds [OF assms(1)] assms(2) by linarith
  qed
qed








text \<open>
  The thresholds of the forecast are not doubles; each lies strictly between its
  rounding and the neighbouring double.
\<close>

lemma thresholds_between_doubles:
  "rnd 0.6 < 0.6 \<and> 0.6 < rnd 0.6 + 2 powi (- 53)
   \<and> rnd 0.4 - 2 powi (- 54) < 0.4 \<and> 0.4 < rnd 0.4"
  by code_simp

section \<open>Properties of the readiness scorer\<close>




text \<open>
  The float computations below, one operation at a time: the doubles of the literals,
  each product and each partial sum.
\<close>

lemma float_steps:
  "rnd 0.20 = 3602879701896397 / 18014398509481984"
  "rnd 0.8 = 3602879701896397 / 4503599627370496"
  "fmul (3602879701896397 / 4503599627370496) (3602879701896397 / 18014398509481984) = 1441151880758559 / 9007199254740992"
  "fadd 0 (1441151880758559 / 9007199254740992) = 1441151880758559 / 9007199254740992"
  "rnd 0.7 = 3152519739159347 / 4503599627370496"
  "fmul (3152519739159347 / 4503599627370496) (3602879701896397 / 18014398509481984) = 5044031582654955 / 36028797018963968"
  "fadd (1441151880758559 / 9007199254740992) (5044031582654955 / 36028797018963968) = 1351079888211149 / 4503599627370496"
  "rnd 0.15 = 5404319552844595 / 36028797018963968"
  "rnd 0.6 = 5404319552844595 / 9007199254740992"
  "fmul (5404319552844595 / 9007199254740992) (5404319552844595 / 36028797018963968) = 3242591731706757 / 36028797018963968"
  "fadd (1351079888211149 / 4503599627370496) (3242591731706757 / 36028797018963968) = 3512807709348987 / 9007199254740992"
  "rnd 0.5 = 1 / 2"
  "fmul (1 / 2) (5404319552844595 / 36028797018963968) = 5404319552844595 / 72057594037927936"
  "fadd (3512807709348987 / 9007199254740992) (5404319552844595 / 72057594037927936) = 8376695306909123 / 18014398509481984"
  "rnd 0.4 = 3602879701896397 / 9007199254740992"
  "fmul (3602879701896397 / 9007199254740992) (5404319552844595 / 36028797018963968) = 1080863910568919 / 18014398509481984"
  "fadd (8376695306909123 / 18014398509481984) (1080863910568919 / 18014398509481984) = 4728779608739021 / 9007199254740992"
  "rnd 0.3 = 5404319552844595 / 18014398509481984"
  "fmul (5404319552844595 / 18014398509481984) (5404319552844595 / 36028797018963968) = 3242591731706757 / 72057594037927936"
  "fadd (4728779608739021 / 9007199254740992) (3242591731706757 / 72057594037927936) = 2567051787601183 / 4503599627370496"
  "fmul 1 (3602879701896397 / 18014398509481984) = 3602879701896397 / 18014398509481984"
  "fadd 0 (3602879701896397 / 18014398509481984) = 3602879701896397 / 18014398509481984"
  "fadd (3602879701896397 / 18014398509481984) (3602879701896397 / 18014398509481984) = 3602879701896397 / 9007199254740992"
  "fmul 1 (5404319552844595 / 36028797018963968) = 5404319552844595 / 36028797018963968"
  "fadd (3602879701896397 / 9007199254740992) (5404319552844595 / 36028797018963968) = 2476979795053773 / 4503599627370496"
  "fadd (2476979795053773 / 4503599627370496) (5404319552844595 / 36028797018963968) = 6305039478318695 / 9007199254740992"
  "fadd (6305039478318695 / 9007199254740992) (5404319552844595 / 36028797018963968) = 1914029841632461 / 2251799813685248"
  "fadd (1914029841632461 / 2251799813685248) (5404319552844595 / 36028797018963968) = 1"
  "fmul (5404319552844595 / 9007199254740992) (3602879701896397 / 18014398509481984) = 1080863910568919 / 9007199254740992"
  "fadd (1351079888211149 / 4503599627370496) (1080863910568919 / 9007199254740992) = 3783023686991217 / 9007199254740992"
  "fadd (3783023686991217 / 9007199254740992) (5404319552844595 / 72057594037927936) = 8917127262193583 / 18014398509481984"
  "fadd (8917127262193583 / 18014398509481984) (1080863910568919 / 18014398509481984) = 4998995586381251 / 9007199254740992"
  "rnd 0.10 = 3602879701896397 / 36028797018963968"
  "fmul (5404319552844595 / 18014398509481984) (3602879701896397 / 36028797018963968) = 1080863910568919 / 36028797018963968"
  "fadd (4998995586381251 / 9007199254740992) (1080863910568919 / 36028797018963968) = 5269211564023481 / 9007199254740992"
  "rnd 0.57 = 5134103575202365 / 9007199254740992"
  "rnd 0.585 = 658651445502935 / 1125899906842624"
  by code_simp+




text \<open>
  The sum of the six float products of the example, added without any rounding error and
  rounded once, is the same double: summing more accurately does not change the result.
\<close>

lemma overall_score_example_exact_sum:
  "rnd (1441151880758559 / 9007199254740992 + 5044031582654955 / 36028797018963968
        + 3242591731706757 / 36028797018963968 + 5404319552844595 / 72057594037927936
        + 1080863910568919 / 18014398509481984 + 3242591731706757 / 72057594037927936)
     = 2567051787601183 / 4503599627370496"
  by code_simp

text \<open>
  With the weights of the status document the exact weighted sum of the example is
  0.585, and its evaluation in floats is the double next above the double of 0.585.
\<close>

lemma documented_weights_exact:
  "sum_list (map (\<lambda>(score, weight). score * weight)
      (zip [0.8, 0.7, 0.6, 0.5, 0.4, 0.3] (in_order documented_weights))) = (0.585::real)"
  by (simp add: in_order_def documented_weights_def)

lemma documented_weights_float:
  "foldl fadd 0 (map (\<lambda>(score, weight). fmul score (rnd weight))
      (zip [rnd 0.8, rnd 0.7, rnd 0.6, rnd 0.5, rnd 0.4, rnd 0.3] (in_order documented_weights)))
     = 5269211564023481 / 9007199254740992
   \<and> rnd 0.585 = 658651445502935 / 1125899906842624"
  by (simp only: in_order_def documented_weights_def by_dimension.select_convs zip.simps
        list.case list.map prod.case foldl.simps float_steps simp_thms)

lemma count_matching_le: "count_matching indicators all_stories \<le> length all_stories"
  by (simp add: count_matching_def)








text \<open>
  C2 (as amended). The predicted trajectory is one of accelerating, stalling and
  uncertain, and the rules apply in the order of the source: a positive trend with
  cultural receptivity above 0.6 gives accelerating; when that rule does not apply, a
  negative trend or a trust foundation below 0.4 gives stalling; every other input gives
  uncertain. The result depends on the trend, the cultural receptivity and the trust
  foundation only. A negative trend gives stalling whatever the scores are, so for a
  negative trend, trust foundation 0.3 and cultural receptivity 0.8 it is stalling.
\<close>

theorem forecast_trajectory_rules:
  "(trend = ''positive'' \<and> cultural_receptivity d > 0.6 \<longrightarrow>
      forecast_adoption_trajectory trend d = ''accelerating'')
   \<and> (\<not> (trend = ''positive'' \<and> cultural_receptivity d > 0.6) \<and>
        (trend = ''negative'' \<or> trust_foundation d < 0.4) \<longrightarrow>
      forecast_adoption_trajectory trend d = ''stalling'')
   \<and> (\<not> (trend = ''positive'' \<and> cultural_receptivity d > 0.6) \<and>
        \<not> (trend = ''negative'' \<or> trust_foundation d < 0.4) \<longrightarrow>
      forecast_adoption_trajectory trend d = ''uncertain'')
   \<and> forecast_adoption_trajectory trend d \<in> {''accelerating'', ''stalling'', ''uncertain''}
   \<and> (cultural_receptivity d = cultural_receptivity d' \<and>
        trust_foundation d = trust_foundation d' \<longrightarrow>
      forecast_adoption_trajectory trend d = forecast_adoption_trajectory trend d')
   \<and> forecast_adoption_trajectory ''negative'' d = ''stalling''
   \<and> forecast (assess_readiness trend d) = forecast_adoption_trajectory trend d"
  by (simp add: forecast_adoption_trajectory_def assess_readiness_def)

theorem forecast_trajectory_rules_witness:
  "forecast_adoption_trajectory ''negative''
     \<lparr> narrative_alignment = 0.5, cultural_receptivity = 0.8, trust_foundation = 0.3,
       learning_orientation = 0.5, leadership_coherence = 0.5, coordination = 0.5 \<rparr> = ''stalling''
   \<and> forecast_adoption_trajectory ''flat''
     \<lparr> narrative_alignment = 0.5, cultural_receptivity = 0.8, trust_foundation = 0.3,
       learning_orientation = 0.5, leadership_coherence = 0.5, coordination = 0.5 \<rparr> = ''stalling''
   \<and> forecast_adoption_trajectory ''flat''
     \<lparr> narrative_alignment = 0.5, cultural_receptivity = 0.8, trust_foundation = 0.5,
       learning_orientation = 0.5, leadership_coherence = 0.5, coordination = 0.5 \<rparr> = ''uncertain''
   \<and> forecast_adoption_trajectory ''positive''
     \<lparr> narrative_alignment = 0.5, cultural_receptivity = 0.8, trust_foundation = 0.5,
       learning_orientation = 0.5, leadership_coherence = 0.5, coordination = 0.5 \<rparr> = ''accelerating''"
  using forecast_trajectory_rules
      [of "''negative''"
          "\<lparr> narrative_alignment = 0.5, cultural_receptivity = 0.8, trust_foundation = 0.3,
             learning_orientation = 0.5, leadership_coherence = 0.5, coordination = 0.5 \<rparr>"
          "\<lparr> narrative_alignment = 0.5, cultural_receptivity = 0.8, trust_foundation = 0.3,
             learning_orientation = 0.5, leadership_coherence = 0.5, coordination = 0.5 \<rparr>"]
        forecast_trajectory_rules
      [of "''flat''"
          "\<lparr> narrative_alignment = 0.5, cultural_receptivity = 0.8, trust_foundation = 0.3,
             learning_orientation = 0.5, leadership_coherence = 0.5, coordination = 0.5 \<rparr>"
          "\<lparr> narrative_alignment = 0.5, cultural_receptivity = 0.8, trust_foundation = 0.3,
             learning_orientation = 0.5, leadership_coherence = 0.5, coordination = 0.5 \<rparr>"]
        forecast_trajectory_rules
      [of "''flat''"
          "\<lparr> narrative_alignment = 0.5, cultural_receptivity = 0.8, trust_foundation = 0.5,
             learning_orientation = 0.5, leadership_coherence = 0.5, coordination = 0.5 \<rparr>"
          "\<lparr> narrative_alignment = 0.5, cultural_receptivity = 0.8, trust_foundation = 0.5,
             learning_orientation = 0.5, leadership_coherence = 0.5, coordination = 0.5 \<rparr>"]
        forecast_trajectory_rules
      [of "''positive''"
          "\<lparr> narrative_alignment = 0.5, cultural_receptivity = 0.8, trust_foundation = 0.5,
             learning_orientation = 0.5, leadership_coherence = 0.5, coordination = 0.5 \<rparr>"
          "\<lparr> narrative_alignment = 0.5, cultural_receptivity = 0.8, trust_foundation = 0.5,
             learning_orientation = 0.5, leadership_coherence = 0.5, coordination = 0.5 \<rparr>"]
  by simp

text \<open>
  C2 as stated fails: with a positive trend and cultural receptivity 0.8, a trust
  foundation of 0.3, which is below 0.4, does not give stalling; the forecast is
  accelerating.
\<close>

theorem forecast_trust_rule_overridden:
  "rnd 0.3 < 0.4
   \<and> forecast_adoption_trajectory ''positive''
       \<lparr> narrative_alignment = rnd 0.5, cultural_receptivity = rnd 0.8,
         trust_foundation = rnd 0.3, learning_orientation = rnd 0.5,
         leadership_coherence = rnd 0.5, coordination = rnd 0.5 \<rparr> = ''accelerating''"
  by (simp only: float_steps) (simp add: forecast_adoption_trajectory_def)

text \<open>
  C3. The six readiness weights sum to exactly 1, in exact arithmetic.
\<close>

theorem weights_sum_to_one:
  "sum_list (in_order weights) = 1"
  by (simp add: in_order_def weights_def)

section \<open>Properties of the vocabulary gap\<close>

lemma length_filter_member:
  assumes "distinct xs"
  shows "length (filter (\<lambda>t. t \<in> B) xs) = card (set xs \<inter> B)"
proof -
  have "distinct (filter (\<lambda>t. t \<in> B) xs)"
    using assms by simp
  then have "card (set (filter (\<lambda>t. t \<in> B) xs)) = length (filter (\<lambda>t. t \<in> B) xs)"
    by (rule distinct_card)
  moreover have "set (filter (\<lambda>t. t \<in> B) xs) = set xs \<inter> B"
    by auto
  ultimately show ?thesis by simp
qed

lemma set_concept_terms:
  "set (concept_terms stories) = (\<Union>s \<in> set stories. set (concepts_mentioned s))"
  by (simp add: concept_terms_def)

lemma vocabulary_gap_sets:
  "vocabulary_gap official actual =
     (if set (concept_terms official) \<union> set (concept_terms actual) = {} then 0
      else 1 - real (card (set (concept_terms official) \<inter> set (concept_terms actual)))
               / real (card (set (concept_terms official) \<union> set (concept_terms actual))))"
proof -
  have d: "distinct (concept_terms official)"
    by (simp add: concept_terms_def)
  have u: "length (remdups (concept_terms official @ concept_terms actual)) =
        card (set (concept_terms official) \<union> set (concept_terms actual))"
    by (simp add: length_remdups_card_conv)
  have e: "(remdups (concept_terms official @ concept_terms actual) = []) =
     (set (concept_terms official) \<union> set (concept_terms actual) = {})"
    by simp
  show ?thesis
    unfolding vocabulary_gap_def Let_def length_filter_member [OF d] length_0_conv e u
    by (rule refl)
qed

lemma vocabulary_gap_range:
  "0 \<le> vocabulary_gap official actual \<and> vocabulary_gap official actual \<le> 1"
proof -
  let ?A = "set (concept_terms official)" and ?B = "set (concept_terms actual)"
  have le: "card (?A \<inter> ?B) \<le> card (?A \<union> ?B)"
    by (rule card_mono) auto
  show ?thesis
  proof (cases "?A \<union> ?B = {}")
    case True
    then show ?thesis by (simp only: vocabulary_gap_sets) simp
  next
    case False
    then have "0 < card (?A \<union> ?B)"
      by (simp add: card_gt_0_iff)
    then have "real (card (?A \<inter> ?B)) / real (card (?A \<union> ?B)) \<le> 1"
      using le by (simp add: divide_le_eq)
    moreover have "0 \<le> real (card (?A \<inter> ?B)) / real (card (?A \<union> ?B))"
      by simp
    ultimately show ?thesis
      using False by (simp only: vocabulary_gap_sets if_False) simp
  qed
qed

text \<open>
  C6. For every pair of story lists (official, actual), the vocabulary gap is one minus
  the number of concept terms mentioned on both sides over the number mentioned on
  either side, and it is 0 when no term is mentioned at all; it always lies in [0,1].
\<close>

theorem vocabulary_gap_jaccard:
  "vocabulary_gap official actual =
     (if (\<Union>s \<in> set official. set (concepts_mentioned s)) \<union>
         (\<Union>s \<in> set actual. set (concepts_mentioned s)) = {} then 0
      else 1 - real (card ((\<Union>s \<in> set official. set (concepts_mentioned s)) \<inter>
                           (\<Union>s \<in> set actual. set (concepts_mentioned s))))
               / real (card ((\<Union>s \<in> set official. set (concepts_mentioned s)) \<union>
                             (\<Union>s \<in> set actual. set (concepts_mentioned s)))))
   \<and> 0 \<le> vocabulary_gap official actual \<and> vocabulary_gap official actual \<le> 1"
  using vocabulary_gap_sets [of official actual] vocabulary_gap_range [of official actual]
  by (simp only: set_concept_terms)

theorem vocabulary_gap_jaccard_witness:
  "vocabulary_gap [\<lparr> concepts_mentioned = [''ai'', ''copilot''] \<rparr>]
                  [\<lparr> concepts_mentioned = [''ai'', ''automation''] \<rparr>,
                   \<lparr> concepts_mentioned = [''ai''] \<rparr>] = 2 / 3
   \<and> vocabulary_gap [] [\<lparr> concepts_mentioned = [] \<rparr>] = 0"
  using vocabulary_gap_jaccard
          [of "[\<lparr> concepts_mentioned = [''ai'', ''copilot''] \<rparr>]"
              "[\<lparr> concepts_mentioned = [''ai'', ''automation''] \<rparr>,
                \<lparr> concepts_mentioned = [''ai''] \<rparr>]"]
        vocabulary_gap_jaccard [of "[]" "[\<lparr> concepts_mentioned = [] \<rparr>]"]
  by (simp add: card_insert_if)

section \<open>Properties of the orchestrator\<close>

lemma sum_list_divide:
  fixes w :: "'a \<Rightarrow> real"
  shows "sum_list (map (\<lambda>a. w a / c) xs) = sum_list (map w xs) / c"
  by (induction xs) (simp_all add: add_divide_distrib)

lemma renormalized_sum_one:
  fixes w :: "'a \<Rightarrow> real"
  assumes "sum_list (map w xs) \<noteq> 0"
  shows "sum_list (map (\<lambda>a. w a / sum_list (map w xs)) xs) = 1"
  using assms by (simp add: sum_list_divide)

lemma sum_list_weights_nonneg:
  fixes w :: "'a \<Rightarrow> real"
  assumes "\<forall>a \<in> set xs. 0 < w a"
  shows "0 \<le> sum_list (map w xs)"
  using assms by (induction xs) (auto simp: less_imp_le)

lemma sum_list_weights_pos:
  fixes w :: "'a \<Rightarrow> real"
  assumes "xs \<noteq> []" and "\<forall>a \<in> set xs. 0 < w a"
  shows "0 < sum_list (map w xs)"
proof (cases xs)
  case Nil
  with assms show ?thesis by simp
next
  case (Cons x rest)
  have "0 < w x"
    using assms Cons by simp
  moreover have "0 \<le> sum_list (map w rest)"
    using assms Cons by (intro sum_list_weights_nonneg) simp
  ultimately show ?thesis
    using Cons by simp
qed

lemma succeeded_one_failure:
  assumes fail: "outcomes failing = Inl (AnalyzerFailure note)"
      and others: "\<forall>a. a \<noteq> failing \<longrightarrow> (\<exists>r. outcomes a = Inr r)"
  shows "succeeded outcomes = remove1 failing all_analyzers"
proof -
  have "isl (outcomes a) = False \<longleftrightarrow> a \<noteq> failing" for a
    using fail others by (cases "a = failing") auto
  then have "succeeded outcomes = filter (\<lambda>a. a \<noteq> failing) all_analyzers"
    by (simp add: succeeded_def)
  also have "\<dots> = remove1 failing all_analyzers"
    by (cases failing) (simp_all add: all_analyzers_def)
  finally show ?thesis .
qed

lemma clamp01_range: "0 \<le> clamp01 x \<and> clamp01 x \<le> 1"
  by (simp add: clamp01_def)

text \<open>
  C5. With positive weights, when exactly one of the five analyzers fails, the
  orchestrator still returns a report; the section of the failing analyzer is marked
  failed and carries the error note, the other four sections are complete; the weights
  of the other four are their shares of the remaining weight and sum to exactly 1, and
  the composite score is defined and lies in [0,1].
\<close>

theorem one_failure_renormalized:
  assumes pos: "\<forall>a. 0 < weight a"
      and fail: "outcomes failing = Inl (AnalyzerFailure note)"
      and others: "\<forall>a. a \<noteq> failing \<longrightarrow> (\<exists>r. outcomes a = Inr r)"
  shows "\<exists>report. run_comprehensive_analysis weight outcomes = Inr report
          \<and> sections report failing = Failed note
          \<and> (\<forall>a. a \<noteq> failing \<longrightarrow> (\<exists>r. sections report a = Completed r))
          \<and> effective_weights report failing = 0
          \<and> (\<forall>a. a \<noteq> failing \<longrightarrow>
                effective_weights report a =
                  weight a / sum_list (map weight (remove1 failing all_analyzers)))
          \<and> length (remove1 failing all_analyzers) = 4
          \<and> sum_list (map (effective_weights report) (remove1 failing all_analyzers)) = 1
          \<and> 0 \<le> composite_score report \<and> composite_score report \<le> 1"
proof -
  let ?rest = "remove1 failing all_analyzers"
  have s: "succeeded outcomes = ?rest"
    using fail others by (rule succeeded_one_failure)
  have ne: "?rest \<noteq> []" and four: "length ?rest = 4"
    by (cases failing; simp add: all_analyzers_def)+
  have p: "0 < sum_list (map weight ?rest)"
    using sum_list_weights_pos [OF ne] pos by blast
  have nin: "failing \<notin> set ?rest"
    by (cases failing) (simp_all add: all_analyzers_def)
  have inn: "a \<noteq> failing \<Longrightarrow> a \<in> set ?rest" for a
    by (cases failing; cases a) (simp_all add: all_analyzers_def)
  have eq: "map (renormalized weight outcomes) ?rest
      = map (\<lambda>a. weight a / sum_list (map weight ?rest)) ?rest"
    by (rule map_cong) (simp_all add: renormalized_def s)
  have one: "sum_list (map (renormalized weight outcomes) ?rest) = 1"
    unfolding eq using renormalized_sum_one [of weight ?rest] p by simp
  have r: "run_comprehensive_analysis weight outcomes =
     Inr \<lparr> sections = (\<lambda>a. section_of (outcomes a)),
           effective_weights = renormalized weight outcomes,
           composite_score =
             clamp01 (sum_list (map (\<lambda>a. renormalized weight outcomes a *
                                          (case outcomes a of Inl e \<Rightarrow> 0 | Inr r \<Rightarrow> report_score r))
                                    (succeeded outcomes))) \<rparr>"
    by (simp add: run_comprehensive_analysis_def)
  have a1: "section_of (outcomes failing) = Failed note"
    using fail by (simp add: section_of_def)
  have a2: "\<forall>a. a \<noteq> failing \<longrightarrow> (\<exists>r. section_of (outcomes a) = Completed r)"
    using others by (auto simp: section_of_def)
  have a3: "renormalized weight outcomes failing = 0"
    using nin by (simp add: renormalized_def s)
  have a4: "\<forall>a. a \<noteq> failing \<longrightarrow>
      renormalized weight outcomes a = weight a / sum_list (map weight ?rest)"
    using inn by (simp add: renormalized_def s)
  show ?thesis
    unfolding r using a1 a2 a3 a4 clamp01_range one four by simp
qed

theorem one_failure_renormalized_witness:
  "\<exists>report.
      run_comprehensive_analysis (\<lambda>a. 1 / 5)
        (\<lambda>a. if a = ResistanceMapper then Inl (AnalyzerFailure ''query failed'')
             else Inr \<lparr> report_score = 1 / 2, evidence = [] \<rparr>) = Inr report
      \<and> sections report ResistanceMapper = Failed ''query failed''
      \<and> effective_weights report CulturalSignalDetector = 1 / 4
      \<and> sum_list (map (effective_weights report)
                       [NarrativeGapAnalyzer, FrameCompetitionAnalyzer, CulturalSignalDetector,
                        AdoptionReadinessScorer]) = 1"
  using one_failure_renormalized
          [of "\<lambda>a. 1 / 5"
              "\<lambda>a. if a = ResistanceMapper then Inl (AnalyzerFailure ''query failed'')
                   else Inr \<lparr> report_score = 1 / 2, evidence = [] \<rparr>"
              ResistanceMapper "''query failed''"]
  by (simp add: all_analyzers_def) blast

section \<open>Ranges of the scores\<close>











section \<open>Properties of the API client\<close>

lemma isArray_iff: "isArray v \<longleftrightarrow> (\<exists>xs. v = Arr xs)"
  by (cases v) auto

lemma searchStories_returns_array: "\<exists>xs. searchStories response = Inr (Arr xs)"
  by (cases response)
     (auto simp: searchStories_def try_catch_def and_then_def isArray_iff split: sum.splits)

lemma searchStories_not_array:
  assumes "\<not> isArray data"
  shows "searchStories (Inr data) = Inr (Arr [])"
  using assms by (simp add: searchStories_def try_catch_def and_then_def split: sum.splits)

text \<open>
  An array is handed on when the log can be built. A first story whose \<open>summary\<close> is
  neither absent nor a string makes the log throw, and the array is replaced by \<open>[]\<close>.
\<close>

lemma searchStories_passes_array:
  "searchStories (Inr (Arr [Obj [(''id'', Str ''s1''), (''summary'', Str ''Pilot'')]]))
     = Inr (Arr [Obj [(''id'', Str ''s1''), (''summary'', Str ''Pilot'')]])"
  by (simp add: searchStories_def stories_log_def try_catch_def and_then_def opt_member_def
        opt_index0_def or_val_def)

lemma searchStories_summary_not_string:
  "searchStories (Inr (Arr [Obj [(''id'', Str ''s1''), (''summary'', Num 7)]])) = Inr (Arr [])"
  by (simp add: searchStories_def stories_log_def try_catch_def and_then_def opt_member_def
        opt_index0_def)

lemma validated_graph_shape:
  "\<exists>ns ls. validated_graph data = Inr (Obj [(''nodes'', Arr ns), (''links'', Arr ls)])"
proof (cases "\<not> truthy data \<or> typeof data \<noteq> ''object''")
  case True
  then show ?thesis
    by (auto simp: validated_graph_def empty_graph_def)
next
  case False
  then obtain nodes links
    where m: "member data ''nodes'' = Inr nodes" "member data ''links'' = Inr links"
    by (cases data) auto
  obtain ns where ns: "(if isArray nodes then nodes else Arr []) = Arr ns"
    by (cases "isArray nodes") (auto simp: isArray_iff)
  obtain ls where ls: "(if isArray links then links else Arr []) = Arr ls"
    by (cases "isArray links") (auto simp: isArray_iff)
  have "validated_graph data = Inr (Obj [(''nodes'', Arr ns), (''links'', Arr ls)])"
    using False m ns ls by (simp add: validated_graph_def and_then_def Let_def)
  then show ?thesis by blast
qed

lemma getGraphData_shape:
  "\<exists>ns ls. getGraphData response = Inr (Obj [(''nodes'', Arr ns), (''links'', Arr ls)])"
proof (cases response)
  case (Inl e)
  then show ?thesis
    by (simp add: getGraphData_def try_catch_def and_then_def empty_graph_def)
next
  case (Inr data)
  show ?thesis
  proof (cases "graph_log data")
    case (Inl e)
    then show ?thesis
      using Inr by (simp add: getGraphData_def try_catch_def and_then_def empty_graph_def)
  next
    case logged: (Inr v)
    obtain ns ls
      where "validated_graph data = Inr (Obj [(''nodes'', Arr ns), (''links'', Arr ls)])"
      using validated_graph_shape by blast
    then show ?thesis
      using Inr logged by (simp add: getGraphData_def try_catch_def and_then_def)
  qed
qed

lemma getGraphData_not_object:
  assumes "\<not> truthy data \<or> typeof data \<noteq> ''object''"
  shows "getGraphData (Inr data) = Inr empty_graph"
proof (cases "graph_log data")
  case (Inl e)
  then show ?thesis
    by (simp add: getGraphData_def try_catch_def and_then_def)
next
  case (Inr v)
  then show ?thesis
    using assms
    by (auto simp add: getGraphData_def validated_graph_def try_catch_def and_then_def)
qed

text \<open>
  C8. \<open>searchStories\<close> and \<open>getGraphData\<close> never pass an error on: whatever the request
  does, \<open>searchStories\<close> returns an array and \<open>getGraphData\<close> an object whose \<open>nodes\<close>
  and \<open>links\<close> are arrays. When the request throws, and when the response body is not
  an array (for \<open>searchStories\<close>) or is falsy or not an object (for \<open>getGraphData\<close>),
  the results are the empty array and the graph with no nodes and no links.
  \<open>getStory\<close> throws the error of the request again, and returns the body otherwise.
\<close>

theorem narrativeAPI_error_handling:
  "(\<exists>xs. searchStories response = Inr (Arr xs))
   \<and> searchStories (Inl e) = Inr (Arr [])
   \<and> (\<not> isArray data \<longrightarrow> searchStories (Inr data) = Inr (Arr []))
   \<and> (\<exists>ns ls. getGraphData response = Inr (Obj [(''nodes'', Arr ns), (''links'', Arr ls)]))
   \<and> getGraphData (Inl e) = Inr (Obj [(''nodes'', Arr []), (''links'', Arr [])])
   \<and> (\<not> truthy data \<or> typeof data \<noteq> ''object'' \<longrightarrow>
        getGraphData (Inr data) = Inr (Obj [(''nodes'', Arr []), (''links'', Arr [])]))
   \<and> getStory (Inl e) = Inl e
   \<and> getStory (Inr data) = Inr data"
proof -
  have "searchStories (Inl e) = Inr (Arr [])"
    by (simp add: searchStories_def try_catch_def and_then_def)
  moreover have "getGraphData (Inl e) = Inr (Obj [(''nodes'', Arr []), (''links'', Arr [])])"
    by (simp add: getGraphData_def try_catch_def and_then_def empty_graph_def)
  moreover have "getStory (Inl e) = Inl e" and "getStory (Inr data) = Inr data"
    by (simp_all add: getStory_def try_catch_def and_then_def)
  ultimately show ?thesis
    using searchStories_returns_array [of response] searchStories_not_array [of data]
      getGraphData_shape [of response] getGraphData_not_object [of data]
    by (simp add: empty_graph_def)
qed

theorem narrativeAPI_error_handling_witness:
  "searchStories (Inl (AxiosError ''Network Error'')) = Inr (Arr [])
   \<and> searchStories (Inr (Str ''<html>'')) = Inr (Arr [])
   \<and> getGraphData (Inl (AxiosError ''Network Error''))
       = Inr (Obj [(''nodes'', Arr []), (''links'', Arr [])])
   \<and> getGraphData (Inr (Str ''<html>'')) = Inr (Obj [(''nodes'', Arr []), (''links'', Arr [])])
   \<and> getStory (Inl (AxiosError ''Network Error'')) = Inl (AxiosError ''Network Error'')"
  using narrativeAPI_error_handling
          [of "Inr (Str ''<html>'')" "AxiosError ''Network Error''" "Str ''<html>''"]
  by simp

section \<open>Properties of the stories pages\<close>

lemma some_selected_iff:
  "js_not (some_selected list selected) \<longleftrightarrow> \<not> one_among list selected"
  by (cases list) (auto simp: js_not_def some_selected_def one_among_def list_ex_iff)

lemma matchesSearch_iff:
  "js_not (or_else (or_else (field_includes a (toLowerCase q)) (field_includes b (toLowerCase q)))
                   (field_includes c (toLowerCase q)))
     \<longleftrightarrow> \<not> (field_matches q a \<or> field_matches q b \<or> field_matches q c)"
  by (cases a; cases b; cases c)
     (auto simp: js_not_def or_else_def field_includes_def includes_str_def field_matches_def)

lemma keep_story_iff: "keep_story f s \<longleftrightarrow> satisfies_filters f s"
  unfolding keep_story_def satisfies_filters_def text_matches_def Let_def
  by (simp only: some_selected_iff matchesSearch_iff length_greater_0_conv) auto

lemma foldl_no_groups:
  assumes "\<forall>s \<in> set xs. story.groups s = None"
  shows "foldl (\<lambda>groups s. add_each groups (story.groups s)) acc xs = acc"
  using assms by (induction xs arbitrary: acc) (simp_all add: add_each_def)

text \<open>
  C9. For every list of stories and every filter state, \<open>filteredStories\<close> keeps, in
  their order, exactly the stories that satisfy all active filters: a search string is
  contained, after lowercasing both, in the summary, the outcome or the full text; the
  type is among the selected types; a primary theme is among the selected themes; a
  group of the story is among the selected groups. With no active filter the result is
  the input list.
\<close>

theorem filteredStories_exact:
  "filteredStories (Some stories) f = filter (satisfies_filters f) stories
   \<and> subseq (filteredStories (Some stories) f) stories
   \<and> (search f = [] \<and> types f = [] \<and> themes f = [] \<and> filters.groups f = [] \<longrightarrow>
        filteredStories (Some stories) f = stories)"
  by (auto simp: filteredStories_def keep_story_iff satisfies_filters_def cong: filter_cong)

theorem filteredStories_exact_witness:
  "filteredStories
     (Some [\<lparr> summary = Some ''Pilot Delivered'', full_text = None, type = ''success'',
              primary_themes = Some [''ai''], outcome = Some ''ok'', group = None,
              groups = Some [''eng''] \<rparr>,
            \<lparr> summary = Some ''Pilot delivered late'', full_text = None, type = ''failure'',
              primary_themes = Some [''ai''], outcome = Some ''ok'', group = None,
              groups = Some [''eng''] \<rparr>])
     \<lparr> search = ''DELIV'', themes = [''ai''], groups = [''eng''], types = [''success''] \<rparr>
   = [\<lparr> summary = Some ''Pilot Delivered'', full_text = None, type = ''success'',
        primary_themes = Some [''ai''], outcome = Some ''ok'', group = None,
        groups = Some [''eng''] \<rparr>]"
  using filteredStories_exact
          [of "[\<lparr> summary = Some ''Pilot Delivered'', full_text = None, type = ''success'',
                   primary_themes = Some [''ai''], outcome = Some ''ok'', group = None,
                   groups = Some [''eng''] \<rparr>,
                 \<lparr> summary = Some ''Pilot delivered late'', full_text = None, type = ''failure'',
                   primary_themes = Some [''ai''], outcome = Some ''ok'', group = None,
                   groups = Some [''eng''] \<rparr>]"
              "\<lparr> search = ''DELIV'', themes = [''ai''], groups = [''eng''], types = [''success''] \<rparr>"]
  by (simp add: satisfies_filters_def text_matches_def field_matches_def one_among_def
        toLowerCase_def lower_char_def sublist_code prefix_code)

text \<open>
  C10. The declared \<open>Story\<close> interface has an optional \<open>group\<close> and no \<open>groups\<close>, which
  the pages read. For stories that have the declared shape, an active group filter
  leaves no story in \<open>filteredStories\<close>, \<open>availableGroups\<close> is empty, and the Groups
  section is rendered for none of them.
\<close>

theorem undeclared_groups_consequences:
  assumes "\<forall>s \<in> set stories. declared_Story s"
  shows "(filters.groups f \<noteq> [] \<longrightarrow> filteredStories (Some stories) f = [])
     \<and> availableGroups (Some stories) = []
     \<and> (\<forall>s \<in> set stories. \<not> groups_section_renders s \<and> group_badges s = [])"
proof -
  have g: "\<forall>s \<in> set stories. story.groups s = None"
    using assms by (simp add: declared_Story_def)
  have 1: "filters.groups f \<noteq> [] \<longrightarrow> filteredStories (Some stories) f = []"
    using g by (auto simp: filteredStories_def keep_story_iff satisfies_filters_def
                  one_among_def filter_empty_conv)
  have 2: "availableGroups (Some stories) = []"
    using foldl_no_groups [OF g] by (simp add: availableGroups_def)
  have 3: "\<forall>s \<in> set stories. \<not> groups_section_renders s \<and> group_badges s = []"
    using g by (simp add: groups_section_renders_def group_badges_def)
  show ?thesis
    using 1 2 3 by blast
qed

theorem undeclared_groups_consequences_witness:
  "filteredStories
     (Some [\<lparr> summary = Some ''Pilot delivered'', full_text = None, type = ''success'',
              primary_themes = Some [''ai''], outcome = Some ''ok'', group = Some ''eng'',
              groups = None \<rparr>])
     \<lparr> search = '''', themes = [], groups = [''eng''], types = [] \<rparr> = []
   \<and> availableGroups
       (Some [\<lparr> summary = Some ''Pilot delivered'', full_text = None, type = ''success'',
                primary_themes = Some [''ai''], outcome = Some ''ok'', group = Some ''eng'',
                groups = None \<rparr>]) = []
   \<and> \<not> groups_section_renders
         \<lparr> summary = Some ''Pilot delivered'', full_text = None, type = ''success'',
           primary_themes = Some [''ai''], outcome = Some ''ok'', group = Some ''eng'',
           groups = None \<rparr>"
  using undeclared_groups_consequences
          [of "[\<lparr> summary = Some ''Pilot delivered'', full_text = None, type = ''success'',
                   primary_themes = Some [''ai''], outcome = Some ''ok'', group = Some ''eng'',
                   groups = None \<rparr>]"
              "\<lparr> search = '''', themes = [], groups = [''eng''], types = [] \<rparr>"]
  by (simp add: declared_Story_def)

end
